theory Spec2Isabelle
  imports Main "HOL-Library.Word"
begin

section \<open>The state prefetcher of core/state\_prefetcher.go\<close>

text \<open>
  The file holds one operation, \<open>statePrefetcher.Prefetch\<close>. It replays the
  transactions of a block on a throw-away state database and calls the bookkeeping
  hooks \<open>InitTxFile\<close>, \<open>WriteHash\<close>, \<open>DelTxFile\<close> and \<open>ReNameTxFile\<close> on
  the way. The function returns nothing: what it does is the sequence of calls it makes
  on its collaborators. The model therefore returns that sequence (a list of events, in
  program order), the \<open>return\<close> statement the run left through, and the mutable
  objects as the run left them.
\<close>

subsection \<open>Data\<close>

type_synonym hash = "256 word" \<comment> \<open>\<open>common.Hash\<close>, 32 bytes\<close>

type_synonym uint64 = "64 word"

datatype error = Error string \<comment> \<open>a non-nil Go \<open>error\<close>\<close>

text \<open>
  \<open>types.Header\<close>, the fields \<open>Prefetch\<close> reads. \<open>Number\<close> and \<open>BaseFee\<close> are
  \<open>*big.Int\<close>: unbounded integers; \<open>BaseFee\<close> may be nil.
\<close>

record Header =
  Number :: int
  Time :: uint64
  GasLimit :: uint64
  BaseFee :: "int option"

text \<open>
  Modelled from the spec: \<open>types.Block\<close> and its accessors are not in src/. A block
  is a header and an ordered sequence of transactions; \<open>block.Header()\<close> and
  \<open>block.Transactions()\<close> read them, \<open>block.Number()\<close> and \<open>block.GasLimit()\<close>
  are the header's \<open>Number\<close> and \<open>GasLimit\<close>. \<open>block.Hash()\<close> is the collaborator
  \<open>HeaderHash\<close> below, applied to the header.
\<close>

record 'tx Block =
  header :: Header
  transactions :: "'tx list"

text \<open>
  \<open>params.ChainConfig\<close>, the fields that \<open>Prefetch\<close> reads (\<open>DAOForkSupport\<close>,
  \<open>DAOForkBlock\<close>) and the Byzantium activation block that the replaced (commented)
  body consulted. A nil \<open>*big.Int\<close> is \<open>None\<close>.
\<close>

record ChainConfig =
  DAOForkSupport :: bool
  DAOForkBlock :: "int option"
  ByzantiumBlock :: "int option"

text \<open>\<open>big.Int.Cmp\<close>: -1, 0 or 1.\<close>

definition Cmp :: "int \<Rightarrow> int \<Rightarrow> int" where
  "Cmp x y = (if x < y then - 1 else if x = y then 0 else 1)"

text \<open>
  Modelled from the spec: \<open>ChainConfig.IsByzantium\<close> (params/config.go) is not in src/.
  The fork rule set is selected by the block's number: a fork is active from its
  configured block on, and never when no block is configured.
\<close>

definition IsByzantium :: "ChainConfig \<Rightarrow> int \<Rightarrow> bool" where
  "IsByzantium config num =
     (case ByzantiumBlock config of None \<Rightarrow> False | Some b \<Rightarrow> Cmp b num \<le> 0)"

text \<open>
  Modelled from the spec: \<open>GasPool\<close> (core/gaspool.go) is not in src/. It is the gas
  budget tracker, a depletable counter of type \<open>uint64\<close>; \<open>new(GasPool)\<close> is the zero
  value and \<open>AddGas\<close> adds to it.
\<close>

type_synonym GasPool = uint64

definition new_GasPool :: GasPool where
  "new_GasPool = 0"

definition AddGas :: "GasPool \<Rightarrow> uint64 \<Rightarrow> GasPool" where
  "AddGas pool amount = pool + amount"

text \<open>
  The objects a run mutates through pointers: the state database \<open>statedb\<close>, the EVM
  \<open>vmenv\<close> built on it, the gas pool \<open>gp\<close> and the counter \<open>usedGas\<close>.
\<close>

record ('db, 'vm) machine =
  statedb :: 'db
  vmenv :: 'vm
  gp :: GasPool
  usedGas :: uint64

text \<open>
  The collaborators \<open>Prefetch\<close> calls, none of them in src/: they are parameters of the
  model. \<open>applyTransaction\<close> is the execution engine; it receives the mutable objects
  and returns its error (the receipt is discarded by the caller) with the objects as it
  left them.
\<close>

record ('tx, 'msg, 'sg, 'db, 'vm, 'cfg) collaborators =
  Hash :: "'tx \<Rightarrow> hash"
  HeaderHash :: "Header \<Rightarrow> hash"
  ApplyDAOHardFork :: "'db \<Rightarrow> 'db"
  NewEVM :: "Header \<Rightarrow> 'db \<Rightarrow> ChainConfig \<Rightarrow> 'cfg \<Rightarrow> 'vm"
  MakeSigner :: "ChainConfig \<Rightarrow> int \<Rightarrow> uint64 \<Rightarrow> 'sg"
  TransactionToMessage :: "'tx \<Rightarrow> 'sg \<Rightarrow> int option \<Rightarrow> error + 'msg"
  SetTxContext :: "hash \<Rightarrow> nat \<Rightarrow> 'db \<Rightarrow> 'db"
  applyTransaction ::
    "'msg \<Rightarrow> ChainConfig \<Rightarrow> int \<Rightarrow> hash \<Rightarrow> 'tx \<Rightarrow> ('db, 'vm) machine
      \<Rightarrow> error option \<times> ('db, 'vm) machine"

text \<open>
  The calls a run makes, with their arguments. \<open>Ev_applyTransaction\<close> records the
  transaction, the content of the gas pool on entry and on return, and the error
  returned. \<open>Ev_IntermediateRoot\<close> is \<open>statedb.IntermediateRoot\<close>, the state-root
  computation.
\<close>

datatype 'tx event =
    Ev_ApplyDAOHardFork
  | Ev_InitTxFile int
  | Ev_SetTxContext hash nat
  | Ev_WriteHash int hash
  | Ev_applyTransaction 'tx GasPool GasPool "error option"
  | Ev_DelTxFile int
  | Ev_ReNameTxFile int
  | Ev_IntermediateRoot bool

text \<open>
  The three ways out of \<open>Prefetch\<close>: the \<open>return\<close> after a failed
  \<open>TransactionToMessage\<close>, the \<open>return\<close> after a failed \<open>applyTransaction\<close>, and
  the end of the function body.
\<close>

datatype exit_path = SenderResolutionFailed | ExecutionFailed | Completed

text \<open>
  The \<open>interrupt *atomic.Bool\<close> argument: nil is \<open>None\<close>; a live flag is the value
  it holds at each transaction boundary (boundary \<open>k\<close> is just before transaction
  \<open>k\<close>), since another goroutine may set it at any time.
\<close>

type_synonym interrupt = "(nat \<Rightarrow> bool) option"

subsection \<open>The loop over the transactions\<close>

text \<open>
  \<open>for i, tx := range block.Transactions()\<close>, from position \<open>i\<close> on (lines
  115 to 129). The two failure branches call \<open>DelTxFile\<close> and return. The hooks take
  \<open>header.Number\<close>; the engine takes \<open>blockNumber\<close>, which is \<open>block.Number()\<close>,
  the same number. The engine's first result, the receipt, is dropped as in the source.
\<close>

fun prefetch_loop ::
  "('tx, 'msg, 'sg, 'db, 'vm, 'cfg) collaborators \<Rightarrow> ChainConfig \<Rightarrow> Header \<Rightarrow> hash \<Rightarrow> 'sg
    \<Rightarrow> nat \<Rightarrow> 'tx list \<Rightarrow> ('db, 'vm) machine
    \<Rightarrow> exit_path \<times> 'tx event list \<times> ('db, 'vm) machine" where
  "prefetch_loop C config hdr blockHash signer i [] m = (Completed, [], m)"
| "prefetch_loop C config hdr blockHash signer i (tx # txs) m =
     (case TransactionToMessage C tx signer (BaseFee hdr) of
        Inl err \<Rightarrow> (SenderResolutionFailed, [Ev_DelTxFile (Number hdr)], m)
      | Inr msg \<Rightarrow>
          (let m1 = m\<lparr>statedb := SetTxContext C (Hash C tx) i (statedb m)\<rparr>;
               r = applyTransaction C msg config (Number hdr) blockHash tx m1;
               evs = [Ev_SetTxContext (Hash C tx) i,
                      Ev_WriteHash (Number hdr) (Hash C tx),
                      Ev_applyTransaction tx (gp m1) (gp (snd r)) (fst r)]
           in (case fst r of
                 Some err \<Rightarrow> (ExecutionFailed, evs @ [Ev_DelTxFile (Number hdr)], snd r)
               | None \<Rightarrow>
                   (let rest = prefetch_loop C config hdr blockHash signer (Suc i) txs (snd r)
                    in (fst rest,
                        evs @ [Ev_WriteHash (Number hdr) (Hash C tx)] @ fst (snd rest),
                        snd (snd rest))))))"

subsection \<open>Prefetch\<close>

text \<open>
  The active body of \<open>Prefetch\<close> (lines 95 to 133): the fresh counter and gas pool,
  the DAO hard fork, the EVM and the signer, \<open>InitTxFile\<close> for a block with
  transactions, the loop, and \<open>ReNameTxFile\<close> when the loop ran to its end. The
  \<open>interrupt\<close> argument is not used by the body.
\<close>

definition Prefetch ::
  "('tx, 'msg, 'sg, 'db, 'vm, 'cfg) collaborators \<Rightarrow> ChainConfig \<Rightarrow> 'tx Block \<Rightarrow> 'db \<Rightarrow> 'cfg
    \<Rightarrow> interrupt \<Rightarrow> exit_path \<times> 'tx event list \<times> ('db, 'vm) machine" where
  "Prefetch C config block db cfg interrupt =
     (let hdr = header block;
          blockHash = HeaderHash C (header block);
          blockNumber = Number (header block);
          gp0 = AddGas new_GasPool (GasLimit (header block));
          dao = (DAOForkSupport config \<and>
                 (case DAOForkBlock config of
                    None \<Rightarrow> False
                  | Some b \<Rightarrow> Cmp b (Number (header block)) = 0));
          db1 = (if dao then ApplyDAOHardFork C db else db);
          ev_dao = (if dao then [Ev_ApplyDAOHardFork] else []);
          vm = NewEVM C hdr db1 config cfg;
          signer = MakeSigner C config (Number hdr) (Time hdr);
          ev_init = (if length (transactions block) > 0 then [Ev_InitTxFile (Number hdr)] else []);
          run = prefetch_loop C config hdr blockHash signer 0 (transactions block)
                  \<lparr>statedb = db1, vmenv = vm, gp = gp0, usedGas = 0\<rparr>
      in (case fst run of
            Completed \<Rightarrow>
              (Completed,
               ev_dao @ ev_init @ fst (snd run) @
                 (if length (transactions block) > 0 then [Ev_ReNameTxFile (Number hdr)] else []),
               snd (snd run))
          | aborted \<Rightarrow> (aborted, ev_dao @ ev_init @ fst (snd run), snd (snd run))))"

subsection \<open>Reading a run\<close>

text \<open>The components of what \<open>Prefetch\<close> returns.\<close>

definition exit_of :: "exit_path \<times> 'tx event list \<times> ('db, 'vm) machine \<Rightarrow> exit_path" where
  "exit_of run = fst run"

definition trace_of :: "exit_path \<times> 'tx event list \<times> ('db, 'vm) machine \<Rightarrow> 'tx event list" where
  "trace_of run = fst (snd run)"

definition machine_of ::
  "exit_path \<times> 'tx event list \<times> ('db, 'vm) machine \<Rightarrow> ('db, 'vm) machine" where
  "machine_of run = snd (snd run)"

text \<open>
  The calls of the execution engine in a trace, in order: the transaction presented and
  the error returned.
\<close>

fun engine_calls :: "'tx event list \<Rightarrow> ('tx \<times> error option) list" where
  "engine_calls [] = []"
| "engine_calls (Ev_applyTransaction tx g_in g_out r # evs) = (tx, r) # engine_calls evs"
| "engine_calls (e # evs) = engine_calls evs"

definition presented :: "'tx event list \<Rightarrow> 'tx list" where
  "presented evs = map fst (engine_calls evs)"



text \<open>The per-transaction contexts bound on the state database, in order.\<close>

fun bound_contexts :: "'tx event list \<Rightarrow> (hash \<times> nat) list" where
  "bound_contexts [] = []"
| "bound_contexts (Ev_SetTxContext h i # evs) = (h, i) # bound_contexts evs"
| "bound_contexts (e # evs) = bound_contexts evs"

text \<open>The bookkeeping hooks that open and close a run.\<close>

fun is_run_hook :: "'tx event \<Rightarrow> bool" where
  "is_run_hook (Ev_InitTxFile n) = True"
| "is_run_hook (Ev_DelTxFile n) = True"
| "is_run_hook (Ev_ReNameTxFile n) = True"
| "is_run_hook e = False"

definition run_hooks :: "'tx event list \<Rightarrow> 'tx event list" where
  "run_hooks evs = filter is_run_hook evs"

fun is_WriteHash :: "'tx event \<Rightarrow> bool" where
  "is_WriteHash (Ev_WriteHash n h) = True"
| "is_WriteHash e = False"

fun is_root :: "'tx event \<Rightarrow> bool" where
  "is_root (Ev_IntermediateRoot b) = True"
| "is_root e = False"

definition root_computations :: "'tx event list \<Rightarrow> nat" where
  "root_computations evs = length (filter is_root evs)"

subsection \<open>A concrete instance\<close>

text \<open>
  Collaborators to run the model on: a transaction is a number, the gas it needs; the
  transaction 0 has no recoverable sender; the engine fails when the pool holds less gas
  than the transaction needs and takes the gas otherwise; the state database is the list
  of the contexts bound on it, with a mark for the DAO mutation.
\<close>

definition demo :: "(nat, nat, unit, (hash \<times> nat) list, unit, unit) collaborators" where
  "demo =
     \<lparr>Hash = (\<lambda>tx. word_of_nat tx),
      HeaderHash = (\<lambda>h. word_of_int (Number h)),
      ApplyDAOHardFork = (\<lambda>db. (0, 0) # db),
      NewEVM = (\<lambda>h db config cfg. ()),
      MakeSigner = (\<lambda>config n t. ()),
      TransactionToMessage =
        (\<lambda>tx sg fee. if tx = 0 then Inl (Error ''invalid sender'') else Inr tx),
      SetTxContext = (\<lambda>h i db. db @ [(h, i)]),
      applyTransaction =
        (\<lambda>msg config n bh tx m.
           if gp m < word_of_nat msg then (Some (Error ''gas limit reached''), m)
           else (None, m\<lparr>gp := gp m - word_of_nat msg,
                          usedGas := usedGas m + word_of_nat msg\<rparr>))\<rparr>"

definition demo_config :: ChainConfig where
  "demo_config = \<lparr>DAOForkSupport = True, DAOForkBlock = Some 5, ByzantiumBlock = None\<rparr>"

definition demo_config_byzantium :: ChainConfig where
  "demo_config_byzantium =
     \<lparr>DAOForkSupport = True, DAOForkBlock = Some 5, ByzantiumBlock = Some 0\<rparr>"

definition demo_header :: "int \<Rightarrow> Header" where
  "demo_header n = \<lparr>Number = n, Time = 0, GasLimit = 100, BaseFee = None\<rparr>"

definition demo_block :: "int \<Rightarrow> nat list \<Rightarrow> nat Block" where
  "demo_block n txs = \<lparr>header = demo_header n, transactions = txs\<rparr>"

text \<open>A cancellation flag that is set from boundary \<open>k\<close> on.\<close>

definition set_from :: "nat \<Rightarrow> nat \<Rightarrow> bool" where
  "set_from k t = (k \<le> t)"

text \<open>
  A second instance: as \<open>demo\<close>, but the engine leaves a mark for the executed
  transaction on the state database, after the context bound for it.
\<close>

definition demo_marking :: "(nat, nat, unit, (hash \<times> nat) list, unit, unit) collaborators" where
  "demo_marking =
     demo\<lparr>applyTransaction :=
        (\<lambda>msg config n bh tx m.
           if gp m < word_of_nat msg then (Some (Error ''gas limit reached''), m)
           else (None, m\<lparr>statedb := statedb m @ [(word_of_nat tx, 99)],
                          gp := gp m - word_of_nat msg,
                          usedGas := usedGas m + word_of_nat msg\<rparr>))\<rparr>"

subsection \<open>The replay as the spec words it\<close>

text \<open>
  The replay of one transaction in the words of the spec (section 4.1, steps 2a to 2d):
  resolve the sender and build the message, bind the context (the transaction's hash and
  its position in the block) on the state view, then invoke the engine on the message;
  the result is dropped, the objects are kept as the engine left them. \<open>spec_replay\<close>
  does this for every transaction of the block in block order, from the machine the
  run starts on.
\<close>

definition spec_bind_and_execute ::
  "('tx, 'msg, 'sg, 'db, 'vm, 'cfg) collaborators \<Rightarrow> ChainConfig \<Rightarrow> Header \<Rightarrow> hash \<Rightarrow> 'sg
    \<Rightarrow> ('db, 'vm) machine \<Rightarrow> 'tx \<times> nat \<Rightarrow> ('db, 'vm) machine" where
  "spec_bind_and_execute C config hdr blockHash signer m p =
     (case TransactionToMessage C (fst p) signer (BaseFee hdr) of
        Inl err \<Rightarrow> m
      | Inr msg \<Rightarrow>
          snd (applyTransaction C msg config (Number hdr) blockHash (fst p)
                 (m\<lparr>statedb := SetTxContext C (Hash C (fst p)) (snd p) (statedb m)\<rparr>)))"

definition spec_replay ::
  "('tx, 'msg, 'sg, 'db, 'vm, 'cfg) collaborators \<Rightarrow> ChainConfig \<Rightarrow> Header \<Rightarrow> hash \<Rightarrow> 'sg
    \<Rightarrow> ('db, 'vm) machine \<Rightarrow> 'tx list \<Rightarrow> ('db, 'vm) machine" where
  "spec_replay C config hdr blockHash signer m txs =
     foldl (spec_bind_and_execute C config hdr blockHash signer) m (zip txs [0 ..< length txs])"

subsection \<open>Root computations inside the engine call\<close>

text \<open>
  Modelled from the spec: \<open>applyTransaction\<close> (core/state\_processor.go), the callee of
  line 123, is not in src/. By the root-warming policy of the spec (section 4.1, step 2g)
  a transaction that executed without error is followed by one computation of the
  intermediate state root when the fork rule set of the block is before Byzantium, and by
  none from Byzantium on; an execution that failed is followed by none.
  \<open>roots_in_engine_call\<close> is the number of root computations that one call of the
  engine contains; \<open>all_root_computations\<close> adds those of all engine calls of a trace
  to the root computations that \<open>Prefetch\<close> requests itself.
\<close>

fun roots_in_engine_call :: "ChainConfig \<Rightarrow> int \<Rightarrow> 'tx event \<Rightarrow> nat" where
  "roots_in_engine_call config blockNumber (Ev_applyTransaction tx g_in g_out None) =
     (if IsByzantium config blockNumber then 0 else 1)"
| "roots_in_engine_call config blockNumber e = 0"

definition all_root_computations :: "ChainConfig \<Rightarrow> int \<Rightarrow> 'tx event list \<Rightarrow> nat" where
  "all_root_computations config blockNumber evs =
     root_computations evs + sum_list (map (roots_in_engine_call config blockNumber) evs)"

section \<open>Properties of the loop\<close>

text \<open>
  Induction over the iterations of the loop, one case for each way an iteration can
  go: no transaction left, \<open>TransactionToMessage\<close> fails, \<open>applyTransaction\<close>
  fails, or the transaction is applied and the loop goes on.
\<close>

lemma prefetch_loop_induct [consumes 0, case_names Nil SenderFail ExecFail Ok]:
  assumes nil: "\<And>i m. P i [] m (Completed, [], m)"
    and sender: "\<And>i tx txs m e.
        TransactionToMessage C tx signer (BaseFee hdr) = Inl e \<Longrightarrow>
        P i (tx # txs) m (SenderResolutionFailed, [Ev_DelTxFile (Number hdr)], m)"
    and exec: "\<And>i tx txs m msg r e.
        TransactionToMessage C tx signer (BaseFee hdr) = Inr msg \<Longrightarrow>
        r = applyTransaction C msg config (Number hdr) bh tx
              (m\<lparr>statedb := SetTxContext C (Hash C tx) i (statedb m)\<rparr>) \<Longrightarrow>
        fst r = Some e \<Longrightarrow>
        P i (tx # txs) m
          (ExecutionFailed,
           [Ev_SetTxContext (Hash C tx) i, Ev_WriteHash (Number hdr) (Hash C tx),
            Ev_applyTransaction tx (gp m) (gp (snd r)) (Some e), Ev_DelTxFile (Number hdr)],
           snd r)"
    and ok: "\<And>i tx txs m msg r x tr m'.
        TransactionToMessage C tx signer (BaseFee hdr) = Inr msg \<Longrightarrow>
        r = applyTransaction C msg config (Number hdr) bh tx
              (m\<lparr>statedb := SetTxContext C (Hash C tx) i (statedb m)\<rparr>) \<Longrightarrow>
        fst r = None \<Longrightarrow>
        prefetch_loop C config hdr bh signer (Suc i) txs (snd r) = (x, tr, m') \<Longrightarrow>
        P (Suc i) txs (snd r) (x, tr, m') \<Longrightarrow>
        P i (tx # txs) m
          (x,
           [Ev_SetTxContext (Hash C tx) i, Ev_WriteHash (Number hdr) (Hash C tx),
            Ev_applyTransaction tx (gp m) (gp (snd r)) None,
            Ev_WriteHash (Number hdr) (Hash C tx)] @ tr,
           m')"
  shows "P i txs m (prefetch_loop C config hdr bh signer i txs m)"
proof (induction txs arbitrary: i m)
  case Nil
  show ?case by (simp add: nil)
next
  case (Cons tx txs)
  show ?case
  proof (cases "TransactionToMessage C tx signer (BaseFee hdr)")
    case (Inl e)
    then show ?thesis using sender [OF Inl] by simp
  next
    case (Inr msg)
    define r where "r = applyTransaction C msg config (Number hdr) bh tx
              (m\<lparr>statedb := SetTxContext C (Hash C tx) i (statedb m)\<rparr>)"
    show ?thesis
    proof (cases "fst r")
      case (Some e)
      then show ?thesis using exec [OF Inr r_def Some] Inr r_def
        by (simp add: Let_def)
    next
      case None
      obtain x tr m' where rest: "prefetch_loop C config hdr bh signer (Suc i) txs (snd r) = (x, tr, m')"
        by (cases "prefetch_loop C config hdr bh signer (Suc i) txs (snd r)") auto
      have "P (Suc i) txs (snd r) (x, tr, m')"
        using Cons.IH [of "Suc i" "snd r"] rest by simp
      from ok [OF Inr r_def None rest this] show ?thesis
        using Inr r_def None rest by (simp add: Let_def)
    qed
  qed
qed


lemma loop_presented_prefix:
  "length (presented (fst (snd (prefetch_loop C config hdr bh signer i txs m)))) \<le> length txs \<and>
   presented (fst (snd (prefetch_loop C config hdr bh signer i txs m))) =
     take (length (presented (fst (snd (prefetch_loop C config hdr bh signer i txs m))))) txs"
  by (rule prefetch_loop_induct
        [where P = "\<lambda>i txs m R. length (presented (fst (snd R))) \<le> length txs \<and>
            presented (fst (snd R)) = take (length (presented (fst (snd R)))) txs"])
     (simp_all add: presented_def)

lemma loop_bound_contexts:
  "bound_contexts (fst (snd (prefetch_loop C config hdr bh signer i txs m))) =
     zip (map (Hash C) (presented (fst (snd (prefetch_loop C config hdr bh signer i txs m)))))
       [i ..< i + length (presented (fst (snd (prefetch_loop C config hdr bh signer i txs m))))]"
  by (rule prefetch_loop_induct
        [where P = "\<lambda>i txs m R. bound_contexts (fst (snd R)) =
            zip (map (Hash C) (presented (fst (snd R)))) [i ..< i + length (presented (fst (snd R)))]"])
     (simp_all add: presented_def upt_conv_Cons del: upt_Suc)


lemma loop_sender_failure:
  "k < length txs \<Longrightarrow> isl (TransactionToMessage C (txs ! k) signer (BaseFee hdr)) \<Longrightarrow>
   length (engine_calls (fst (snd (prefetch_loop C config hdr bh signer i txs m)))) \<le> k \<and>
   fst (prefetch_loop C config hdr bh signer i txs m) \<noteq> Completed"
  by (rule prefetch_loop_induct
        [where P = "\<lambda>i txs m R. \<forall>k. k < length txs \<longrightarrow>
            isl (TransactionToMessage C (txs ! k) signer (BaseFee hdr)) \<longrightarrow>
            length (engine_calls (fst (snd R))) \<le> k \<and> fst R \<noteq> Completed", rule_format])
     (auto simp: nth_Cons split: nat.splits)

lemma loop_engine_error:
  "k < length (engine_calls (fst (snd (prefetch_loop C config hdr bh signer i txs m)))) \<Longrightarrow>
   snd (engine_calls (fst (snd (prefetch_loop C config hdr bh signer i txs m))) ! k) \<noteq> None \<Longrightarrow>
   length (engine_calls (fst (snd (prefetch_loop C config hdr bh signer i txs m)))) = Suc k \<and>
   fst (prefetch_loop C config hdr bh signer i txs m) = ExecutionFailed \<and>
   last (fst (snd (prefetch_loop C config hdr bh signer i txs m))) = Ev_DelTxFile (Number hdr)"
  by (rule prefetch_loop_induct
        [where P = "\<lambda>i txs m R. \<forall>k. k < length (engine_calls (fst (snd R))) \<longrightarrow>
            snd (engine_calls (fst (snd R)) ! k) \<noteq> None \<longrightarrow>
            length (engine_calls (fst (snd R))) = Suc k \<and> fst R = ExecutionFailed \<and>
            last (fst (snd R)) = Ev_DelTxFile (Number hdr)", rule_format])
     (auto simp: nth_Cons split: nat.splits)

lemma loop_run_hooks:
  "run_hooks (fst (snd (prefetch_loop C config hdr bh signer i txs m))) =
     (if fst (prefetch_loop C config hdr bh signer i txs m) = Completed then []
      else [Ev_DelTxFile (Number hdr)])"
  by (rule prefetch_loop_induct
        [where P = "\<lambda>i txs m R. run_hooks (fst (snd R)) =
            (if fst R = Completed then [] else [Ev_DelTxFile (Number hdr)])"])
     (simp_all add: run_hooks_def)


lemma loop_no_root:
  "filter is_root (fst (snd (prefetch_loop C config hdr bh signer i txs m))) = []"
  by (rule prefetch_loop_induct [where P = "\<lambda>i txs m R. filter is_root (fst (snd R)) = []"])
     simp_all

lemma loop_no_dao:
  "Ev_ApplyDAOHardFork \<notin> set (fst (snd (prefetch_loop C config hdr bh signer i txs m)))"
  by (rule prefetch_loop_induct [where P = "\<lambda>i txs m R. Ev_ApplyDAOHardFork \<notin> set (fst (snd R))"])
     simp_all


lemma loop_reaches_bad_sender:
  "k < length txs \<Longrightarrow> isl (TransactionToMessage C (txs ! k) signer (BaseFee hdr)) \<Longrightarrow>
   engine_calls (fst (snd (prefetch_loop C config hdr bh signer i txs m))) =
     map (\<lambda>tx. (tx, None)) (take k txs) \<Longrightarrow>
   fst (prefetch_loop C config hdr bh signer i txs m) = SenderResolutionFailed"
  by (rule prefetch_loop_induct
        [where P = "\<lambda>i txs m R. \<forall>k. k < length txs \<longrightarrow>
            isl (TransactionToMessage C (txs ! k) signer (BaseFee hdr)) \<longrightarrow>
            engine_calls (fst (snd R)) = map (\<lambda>tx. (tx, None)) (take k txs) \<longrightarrow>
            fst R = SenderResolutionFailed", rule_format])
     (auto simp: nth_Cons take_Cons split: nat.splits)

lemma loop_no_rename:
  "Ev_ReNameTxFile n \<notin> set (fst (snd (prefetch_loop C config hdr bh signer i txs m)))"
  by (rule prefetch_loop_induct [where P = "\<lambda>i txs m R. Ev_ReNameTxFile n \<notin> set (fst (snd R))"])
     simp_all

lemma loop_aborted_last:
  "fst (prefetch_loop C config hdr bh signer i txs m) \<noteq> Completed \<Longrightarrow>
   fst (snd (prefetch_loop C config hdr bh signer i txs m)) \<noteq> [] \<and>
   last (fst (snd (prefetch_loop C config hdr bh signer i txs m))) = Ev_DelTxFile (Number hdr)"
  by (rule prefetch_loop_induct
        [where P = "\<lambda>i txs m R. fst R \<noteq> Completed \<longrightarrow>
            fst (snd R) \<noteq> [] \<and> last (fst (snd R)) = Ev_DelTxFile (Number hdr)", rule_format])
     simp_all

lemma loop_write_hash_adjacent_aux:
  "\<forall>before after. fst (snd (prefetch_loop C config hdr bh signer i txs m)) =
            before @ Ev_applyTransaction tx g g' r # after \<longrightarrow>
            (\<exists>bs. before = bs @ [Ev_WriteHash (Number hdr) (Hash C tx)]) \<and>
            (r = None \<longrightarrow> (\<exists>as. after = Ev_WriteHash (Number hdr) (Hash C tx) # as)) \<and>
            (r \<noteq> None \<longrightarrow> after = [Ev_DelTxFile (Number hdr)] \<and>
               fst (prefetch_loop C config hdr bh signer i txs m) \<noteq> Completed)"
  by (rule prefetch_loop_induct
        [where P = "\<lambda>i txs m R. \<forall>before after. fst (snd R) =
            before @ Ev_applyTransaction tx g g' r # after \<longrightarrow>
            (\<exists>bs. before = bs @ [Ev_WriteHash (Number hdr) (Hash C tx)]) \<and>
            (r = None \<longrightarrow> (\<exists>as. after = Ev_WriteHash (Number hdr) (Hash C tx) # as)) \<and>
            (r \<noteq> None \<longrightarrow> after = [Ev_DelTxFile (Number hdr)] \<and> fst R \<noteq> Completed)"])
     (fastforce simp: Cons_eq_append_conv)+

lemma loop_write_hash_count:
  "length (filter is_WriteHash (fst (snd (prefetch_loop C config hdr bh signer i txs m)))) =
     2 * length (filter (\<lambda>c. snd c = None) (engine_calls (fst (snd (prefetch_loop C config hdr bh signer i txs m))))) +
     length (filter (\<lambda>c. snd c \<noteq> None) (engine_calls (fst (snd (prefetch_loop C config hdr bh signer i txs m)))))"
  by (rule prefetch_loop_induct
        [where P = "\<lambda>i txs m R. length (filter is_WriteHash (fst (snd R))) =
            2 * length (filter (\<lambda>c. snd c = None) (engine_calls (fst (snd R)))) +
            length (filter (\<lambda>c. snd c \<noteq> None) (engine_calls (fst (snd R))))"])
     simp_all


lemma loop_stops_at_first_failure:
  "(\<forall>j < length (engine_calls (fst (snd (prefetch_loop C config hdr bh signer i txs m)))).
      \<not> isl (TransactionToMessage C (txs ! j) signer (BaseFee hdr))) \<and>
   (\<forall>c \<in> set (butlast (engine_calls (fst (snd (prefetch_loop C config hdr bh signer i txs m))))).
      snd c = None) \<and>
   (fst (prefetch_loop C config hdr bh signer i txs m) = Completed \<longrightarrow>
      engine_calls (fst (snd (prefetch_loop C config hdr bh signer i txs m))) =
        map (\<lambda>tx. (tx, None)) txs) \<and>
   (fst (prefetch_loop C config hdr bh signer i txs m) = SenderResolutionFailed \<longrightarrow>
      length (engine_calls (fst (snd (prefetch_loop C config hdr bh signer i txs m)))) < length txs \<and>
      isl (TransactionToMessage C
            (txs ! length (engine_calls (fst (snd (prefetch_loop C config hdr bh signer i txs m)))))
            signer (BaseFee hdr)) \<and>
      (\<forall>c \<in> set (engine_calls (fst (snd (prefetch_loop C config hdr bh signer i txs m)))).
         snd c = None)) \<and>
   (fst (prefetch_loop C config hdr bh signer i txs m) = ExecutionFailed \<longrightarrow>
      engine_calls (fst (snd (prefetch_loop C config hdr bh signer i txs m))) \<noteq> [] \<and>
      snd (last (engine_calls (fst (snd (prefetch_loop C config hdr bh signer i txs m))))) \<noteq> None)"
  by (rule prefetch_loop_induct
        [where P = "\<lambda>i txs m R.
            (\<forall>j < length (engine_calls (fst (snd R))).
               \<not> isl (TransactionToMessage C (txs ! j) signer (BaseFee hdr))) \<and>
            (\<forall>c \<in> set (butlast (engine_calls (fst (snd R)))). snd c = None) \<and>
            (fst R = Completed \<longrightarrow> engine_calls (fst (snd R)) = map (\<lambda>tx. (tx, None)) txs) \<and>
            (fst R = SenderResolutionFailed \<longrightarrow>
               length (engine_calls (fst (snd R))) < length txs \<and>
               isl (TransactionToMessage C (txs ! length (engine_calls (fst (snd R)))) signer (BaseFee hdr)) \<and>
               (\<forall>c \<in> set (engine_calls (fst (snd R))). snd c = None)) \<and>
            (fst R = ExecutionFailed \<longrightarrow>
               engine_calls (fst (snd R)) \<noteq> [] \<and> snd (last (engine_calls (fst (snd R)))) \<noteq> None)"])
     (auto simp: nth_Cons split: nat.splits)


section \<open>Properties of Prefetch\<close>

text \<open>
  \<open>Prefetch\<close> is the loop, run from position 0 on a fresh machine, between the
  events of its prologue and the closing \<open>ReNameTxFile\<close>.
\<close>

lemma Prefetch_unfold_machine:
  "Prefetch C config block db cfg intr =
     (let dao = (DAOForkSupport config \<and> DAOForkBlock config = Some (Number (header block)));
          db1 = (if dao then ApplyDAOHardFork C db else db);
          run = prefetch_loop C config (header block) (HeaderHash C (header block))
                  (MakeSigner C config (Number (header block)) (Time (header block)))
                  0 (transactions block)
                  \<lparr>statedb = db1, vmenv = NewEVM C (header block) db1 config cfg,
                   gp = GasLimit (header block), usedGas = 0\<rparr>
      in (fst run,
          (if dao then [Ev_ApplyDAOHardFork] else []) @
          (if transactions block = [] then [] else [Ev_InitTxFile (Number (header block))]) @
          fst (snd run) @
          (if fst run = Completed \<and> transactions block \<noteq> []
           then [Ev_ReNameTxFile (Number (header block))] else []),
          snd (snd run)))"
proof -
  define d where "d = (DAOForkSupport config \<and> DAOForkBlock config = Some (Number (header block)))"
  have dao: "(DAOForkSupport config \<and>
        (case DAOForkBlock config of None \<Rightarrow> False
         | Some b \<Rightarrow> Cmp b (Number (header block)) = 0)) = d"
    by (auto simp: d_def Cmp_def split: option.split)
  show ?thesis
    unfolding Prefetch_def dao d_def [symmetric]
    by (cases d) (simp_all add: Let_def AddGas_def new_GasPool_def split: exit_path.split)
qed

lemma Prefetch_unfold:
  "\<exists>m0. gp m0 = GasLimit (header block) \<and>
     statedb m0 = (if DAOForkSupport config \<and> DAOForkBlock config = Some (Number (header block))
                   then ApplyDAOHardFork C db else db) \<and>
     Prefetch C config block db cfg intr =
       (let run = prefetch_loop C config (header block) (HeaderHash C (header block))
                    (MakeSigner C config (Number (header block)) (Time (header block)))
                    0 (transactions block) m0
        in (fst run,
            (if DAOForkSupport config \<and> DAOForkBlock config = Some (Number (header block))
             then [Ev_ApplyDAOHardFork] else []) @
            (if transactions block = [] then [] else [Ev_InitTxFile (Number (header block))]) @
            fst (snd run) @
            (if fst run = Completed \<and> transactions block \<noteq> []
             then [Ev_ReNameTxFile (Number (header block))] else []),
            snd (snd run)))"
  unfolding Prefetch_unfold_machine Let_def
  by (rule exI [of _ "\<lparr>statedb = (if DAOForkSupport config \<and> DAOForkBlock config = Some (Number (header block))
                   then ApplyDAOHardFork C db else db), vmenv = NewEVM C (header block) (if DAOForkSupport config \<and> DAOForkBlock config = Some (Number (header block))
                   then ApplyDAOHardFork C db else db) config cfg,
                   gp = GasLimit (header block), usedGas = 0\<rparr>"]) simp

text \<open>The definitions to unfold when the model is run on the concrete instance.\<close>

lemmas demo_simps = Prefetch_def demo_def demo_config_def demo_config_byzantium_def demo_block_def
  demo_header_def AddGas_def new_GasPool_def Cmp_def trace_of_def exit_of_def machine_of_def
  presented_def run_hooks_def root_computations_def set_from_def IsByzantium_def
  demo_marking_def spec_replay_def spec_bind_and_execute_def all_root_computations_def

text \<open>
  The projections distribute over the concatenation of traces, and the trace of
  \<open>Prefetch\<close> is the trace of the loop between a prologue and an epilogue that hold
  no engine call.
\<close>

lemma engine_calls_append: "engine_calls (xs @ ys) = engine_calls xs @ engine_calls ys"
  by (induction xs rule: engine_calls.induct) simp_all



lemma bound_contexts_append: "bound_contexts (xs @ ys) = bound_contexts xs @ bound_contexts ys"
  by (induction xs rule: bound_contexts.induct) simp_all

lemma Prefetch_run:
  obtains m0 where "gp m0 = GasLimit (header block)"
    and "statedb m0 =
           (if DAOForkSupport config \<and> DAOForkBlock config = Some (Number (header block))
            then ApplyDAOHardFork C db else db)"
    and "exit_of (Prefetch C config block db cfg intr) =
           fst (prefetch_loop C config (header block) (HeaderHash C (header block))
                  (MakeSigner C config (Number (header block)) (Time (header block)))
                  0 (transactions block) m0)"
    and "trace_of (Prefetch C config block db cfg intr) =
           (if DAOForkSupport config \<and> DAOForkBlock config = Some (Number (header block))
            then [Ev_ApplyDAOHardFork] else []) @
           (if transactions block = [] then [] else [Ev_InitTxFile (Number (header block))]) @
           fst (snd (prefetch_loop C config (header block) (HeaderHash C (header block))
                  (MakeSigner C config (Number (header block)) (Time (header block)))
                  0 (transactions block) m0)) @
           (if exit_of (Prefetch C config block db cfg intr) = Completed \<and> transactions block \<noteq> []
            then [Ev_ReNameTxFile (Number (header block))] else [])"
    and "machine_of (Prefetch C config block db cfg intr) =
           snd (snd (prefetch_loop C config (header block) (HeaderHash C (header block))
                  (MakeSigner C config (Number (header block)) (Time (header block)))
                  0 (transactions block) m0))"
proof -
  obtain m0 where g: "gp m0 = GasLimit (header block)"
    and d: "statedb m0 =
           (if DAOForkSupport config \<and> DAOForkBlock config = Some (Number (header block))
            then ApplyDAOHardFork C db else db)"
    and P: "Prefetch C config block db cfg intr =
       (let run = prefetch_loop C config (header block) (HeaderHash C (header block))
                    (MakeSigner C config (Number (header block)) (Time (header block)))
                    0 (transactions block) m0
        in (fst run,
            (if DAOForkSupport config \<and> DAOForkBlock config = Some (Number (header block))
             then [Ev_ApplyDAOHardFork] else []) @
            (if transactions block = [] then [] else [Ev_InitTxFile (Number (header block))]) @
            fst (snd run) @
            (if fst run = Completed \<and> transactions block \<noteq> []
             then [Ev_ReNameTxFile (Number (header block))] else []),
            snd (snd run)))"
    using Prefetch_unfold [of block config C db cfg intr] by blast
  show thesis
    by (rule that [of m0]) (simp_all add: g d P Let_def exit_of_def trace_of_def machine_of_def)
qed

lemma split_middle:
  assumes "pre @ mid @ post = before @ e # after" and "e \<notin> set pre" and "e \<notin> set post"
  shows "\<exists>b a. before = pre @ b \<and> after = a @ post \<and> mid = b @ e # a"
  using assms
  by (auto simp: append_eq_append_conv2 append_eq_Cons_conv Cons_eq_append_conv)


text \<open>
  The exit path and the objects that \<open>Prefetch\<close> leaves are those of the loop, started
  on the fresh counter and gas pool and on the state database after the DAO hard fork.
\<close>

lemma Prefetch_loop_machine:
  "exit_of (Prefetch C config block db cfg intr) =
     fst (prefetch_loop C config (header block) (HeaderHash C (header block))
            (MakeSigner C config (Number (header block)) (Time (header block)))
            0 (transactions block)
            \<lparr>statedb =
               (if DAOForkSupport config \<and> DAOForkBlock config = Some (Number (header block))
                then ApplyDAOHardFork C db else db),
             vmenv = NewEVM C (header block)
               (if DAOForkSupport config \<and> DAOForkBlock config = Some (Number (header block))
                then ApplyDAOHardFork C db else db) config cfg,
             gp = GasLimit (header block), usedGas = 0\<rparr>) \<and>
   machine_of (Prefetch C config block db cfg intr) =
     snd (snd (prefetch_loop C config (header block) (HeaderHash C (header block))
            (MakeSigner C config (Number (header block)) (Time (header block)))
            0 (transactions block)
            \<lparr>statedb =
               (if DAOForkSupport config \<and> DAOForkBlock config = Some (Number (header block))
                then ApplyDAOHardFork C db else db),
             vmenv = NewEVM C (header block)
               (if DAOForkSupport config \<and> DAOForkBlock config = Some (Number (header block))
                then ApplyDAOHardFork C db else db) config cfg,
             gp = GasLimit (header block), usedGas = 0\<rparr>))"
  by (simp add: Prefetch_unfold_machine Let_def exit_of_def machine_of_def)

lemma Prefetch_DAO_trace:
  "(DAOForkSupport config \<and> DAOForkBlock config = Some (Number (header block)) \<longrightarrow>
      (\<exists>rest. trace_of (Prefetch C config block db cfg interrupt) = Ev_ApplyDAOHardFork # rest \<and>
         Ev_ApplyDAOHardFork \<notin> set rest)) \<and>
   (\<not> (DAOForkSupport config \<and> DAOForkBlock config = Some (Number (header block))) \<longrightarrow>
      Ev_ApplyDAOHardFork \<notin> set (trace_of (Prefetch C config block db cfg interrupt))) \<and>
   (transactions block = [] \<longrightarrow>
      statedb (machine_of (Prefetch C config block db cfg interrupt)) =
        (if DAOForkSupport config \<and> DAOForkBlock config = Some (Number (header block))
         then ApplyDAOHardFork C db else db))"
proof (rule Prefetch_run [where block = block and config = config and C = C and db = db
      and cfg = cfg and intr = interrupt], goal_cases)
  case (1 m0)
  define run where "run = prefetch_loop C config (header block) (HeaderHash C (header block))
      (MakeSigner C config (Number (header block)) (Time (header block))) 0 (transactions block) m0"
  have n: "Ev_ApplyDAOHardFork \<notin> set (fst (snd run))"
    unfolding run_def by (rule loop_no_dao)
  have s: "transactions block = [] \<Longrightarrow> snd (snd run) = m0"
    by (simp add: run_def)
  show ?case
    unfolding 1(4) 1(5) run_def [symmetric]
    using n s 1(2) by simp
qed

lemma Prefetch_stops_at_first_failure:
  "presented (trace_of (Prefetch C config block db cfg intr)) =
     take (length (engine_calls (trace_of (Prefetch C config block db cfg intr)))) (transactions block) \<and>
   (\<forall>j < length (engine_calls (trace_of (Prefetch C config block db cfg intr))).
      \<not> isl (TransactionToMessage C (transactions block ! j)
               (MakeSigner C config (Number (header block)) (Time (header block)))
               (BaseFee (header block)))) \<and>
   (\<forall>c \<in> set (butlast (engine_calls (trace_of (Prefetch C config block db cfg intr)))).
      snd c = None) \<and>
   (exit_of (Prefetch C config block db cfg intr) = Completed \<longrightarrow>
      length (engine_calls (trace_of (Prefetch C config block db cfg intr))) =
        length (transactions block) \<and>
      (\<forall>c \<in> set (engine_calls (trace_of (Prefetch C config block db cfg intr))). snd c = None)) \<and>
   (exit_of (Prefetch C config block db cfg intr) = SenderResolutionFailed \<longrightarrow>
      length (engine_calls (trace_of (Prefetch C config block db cfg intr))) <
        length (transactions block) \<and>
      isl (TransactionToMessage C
            (transactions block ! length (engine_calls (trace_of (Prefetch C config block db cfg intr))))
            (MakeSigner C config (Number (header block)) (Time (header block)))
            (BaseFee (header block))) \<and>
      (\<forall>c \<in> set (engine_calls (trace_of (Prefetch C config block db cfg intr))). snd c = None)) \<and>
   (exit_of (Prefetch C config block db cfg intr) = ExecutionFailed \<longrightarrow>
      engine_calls (trace_of (Prefetch C config block db cfg intr)) \<noteq> [] \<and>
      snd (last (engine_calls (trace_of (Prefetch C config block db cfg intr)))) \<noteq> None)"
proof (rule Prefetch_run [where block = block and config = config and C = C and db = db
      and cfg = cfg and intr = intr], goal_cases)
  case (1 m0)
  define run where "run = prefetch_loop C config (header block) (HeaderHash C (header block))
      (MakeSigner C config (Number (header block)) (Time (header block))) 0 (transactions block) m0"
  have x: "exit_of (Prefetch C config block db cfg intr) = fst run"
    using 1(3) by (simp add: run_def)
  have c: "engine_calls (trace_of (Prefetch C config block db cfg intr)) =
      engine_calls (fst (snd run))"
    unfolding 1(4) run_def [symmetric] by (simp add: engine_calls_append)
  have p: "presented (trace_of (Prefetch C config block db cfg intr)) = presented (fst (snd run))"
    by (simp add: presented_def c)
  have pre: "length (presented (fst (snd run))) \<le> length (transactions block) \<and>
      presented (fst (snd run)) = take (length (presented (fst (snd run)))) (transactions block)"
    unfolding run_def by (rule loop_presented_prefix)
  have l: "length (presented (fst (snd run))) = length (engine_calls (fst (snd run)))"
    by (simp add: presented_def)
  show ?case
    unfolding x c p
    using loop_stops_at_first_failure [of C config "header block" "HeaderHash C (header block)"
        "MakeSigner C config (Number (header block)) (Time (header block))" 0 "transactions block" m0]
      pre l
    unfolding run_def [symmetric]
    by auto
qed

section \<open>The claims\<close>

subsection \<open>Cancellation\<close>

text \<open>
  Claim C1 (cancellation). The claim says that once the cancellation signal is set before
  transaction \<open>k\<close>, none of the transactions \<open>k..n\<close> reaches the execution engine.
  \<open>Prefetch\<close> takes the \<open>interrupt\<close> argument and never loads it. What holds
  instead, with the signal set at boundary \<open>k\<close>: the run is the run without a signal.
  The transactions presented to the engine are a prefix of the block, in block order;
  each of them has a sender that resolves, and all but possibly the last are executed
  without error. The run stops only at the end of the block, at the first transaction
  whose sender does not resolve, or at the first execution that fails. So every
  transaction at a position \<open>j\<close> from \<open>k\<close> on is presented to the engine, as long as
  the senders up to \<open>j\<close> resolve and no execution before \<open>j\<close> failed.
\<close>

theorem Prefetch_set_signal_ignored:
  assumes "f k"
  shows "Prefetch C config block db cfg (Some f) = Prefetch C config block db cfg None \<and>
    (let run = Prefetch C config block db cfg (Some f);
         calls = engine_calls (trace_of run);
         txs = transactions block;
         resolves = (\<lambda>tx. \<not> isl (TransactionToMessage C tx
                       (MakeSigner C config (Number (header block)) (Time (header block)))
                       (BaseFee (header block))))
     in presented (trace_of run) = take (length calls) txs \<and>
        (\<forall>j < length calls. resolves (txs ! j)) \<and>
        (\<forall>c \<in> set (butlast calls). snd c = None) \<and>
        (exit_of run = Completed \<longrightarrow>
           length calls = length txs \<and> (\<forall>c \<in> set calls. snd c = None)) \<and>
        (exit_of run = SenderResolutionFailed \<longrightarrow>
           length calls < length txs \<and> \<not> resolves (txs ! length calls) \<and>
           (\<forall>c \<in> set calls. snd c = None)) \<and>
        (exit_of run = ExecutionFailed \<longrightarrow> calls \<noteq> [] \<and> snd (last calls) \<noteq> None) \<and>
        (\<forall>j. k \<le> j \<and> j < length txs \<and> (\<forall>i \<le> j. resolves (txs ! i)) \<and>
              (\<forall>i < j. i < length calls \<longrightarrow> snd (calls ! i) = None) \<longrightarrow>
           j < length calls \<and> presented (trace_of run) ! j = txs ! j))"
proof -
  define run where "run = Prefetch C config block db cfg (Some f)"
  define calls where "calls = engine_calls (trace_of run)"
  define txs where "txs = transactions block"
  define resolves where "resolves = (\<lambda>tx. \<not> isl (TransactionToMessage C tx
      (MakeSigner C config (Number (header block)) (Time (header block)))
      (BaseFee (header block))))"
  have pre: "presented (trace_of run) = take (length calls) txs"
    and res: "\<forall>j < length calls. resolves (txs ! j)"
    and but: "\<forall>c \<in> set (butlast calls). snd c = None"
    and com: "exit_of run = Completed \<longrightarrow>
           length calls = length txs \<and> (\<forall>c \<in> set calls. snd c = None)"
    and sen: "exit_of run = SenderResolutionFailed \<longrightarrow>
           length calls < length txs \<and> \<not> resolves (txs ! length calls) \<and>
           (\<forall>c \<in> set calls. snd c = None)"
    and exe: "exit_of run = ExecutionFailed \<longrightarrow> calls \<noteq> [] \<and> snd (last calls) \<noteq> None"
    using Prefetch_stops_at_first_failure [of C config block db cfg "Some f"]
    unfolding run_def calls_def txs_def resolves_def by simp_all
  have reach: "j < length calls \<and> presented (trace_of run) ! j = txs ! j"
    if j: "j < length txs" and r: "\<forall>i \<le> j. resolves (txs ! i)"
      and ok: "\<forall>i < j. i < length calls \<longrightarrow> snd (calls ! i) = None" for j
  proof -
    have "j < length calls"
    proof (rule ccontr)
      assume "\<not> j < length calls"
      then have le: "length calls \<le> j" by simp
      show False
      proof (cases "exit_of run")
        case SenderResolutionFailed
        with sen r le show False by blast
      next
        case ExecutionFailed
        with exe have ne: "calls \<noteq> []" and e: "snd (last calls) \<noteq> None" by simp_all
        from ne have "last calls = calls ! (length calls - 1)"
          by (rule last_conv_nth)
        moreover from ne le have "length calls - 1 < j" "length calls - 1 < length calls"
          by (simp_all add: Suc_le_lessD)
        ultimately show False using ok e by metis
      next
        case Completed
        with com le j show False by simp
      qed
    qed
    then show ?thesis using pre j by simp
  qed
  have "Prefetch C config block db cfg (Some f) = Prefetch C config block db cfg None"
    by (simp add: Prefetch_def)
  then show ?thesis
    using pre res but com sen exe reach
    unfolding Let_def run_def [symmetric] calls_def [symmetric] txs_def [symmetric]
      resolves_def [symmetric]
    by blast
qed

text \<open>
  The signal is set from boundary 1 on; the third transaction has no recoverable sender.
  The transactions at positions 0 and 1 are presented, and the run stops at position 2.
\<close>

theorem Prefetch_set_signal_ignored_witness:
  "set_from 1 1 \<and>
   Prefetch demo demo_config (demo_block 4 [10, 20, 0]) [] () (Some (set_from 1)) =
     Prefetch demo demo_config (demo_block 4 [10, 20, 0]) [] () None \<and>
   presented (trace_of (Prefetch demo demo_config (demo_block 4 [10, 20, 0]) [] ()
     (Some (set_from 1)))) = [10, 20] \<and>
   exit_of (Prefetch demo demo_config (demo_block 4 [10, 20, 0]) [] () (Some (set_from 1))) =
     SenderResolutionFailed \<and>
   isl (TransactionToMessage demo (transactions (demo_block 4 [10, 20, 0]) ! 2)
         (MakeSigner demo demo_config (Number (header (demo_block 4 [10, 20, 0])))
            (Time (header (demo_block 4 [10, 20, 0]))))
         (BaseFee (header (demo_block 4 [10, 20, 0]))))"
proof -
  have h: "set_from 1 1"
    by (simp add: set_from_def)
  show ?thesis
    using h Prefetch_set_signal_ignored [where f = "set_from 1" and k = 1 and C = demo
        and config = demo_config and block = "demo_block 4 [10, 20, 0]" and db = "[]" and cfg = "()"]
    by (simp add: demo_simps)
qed

text \<open>
  Against C1 as stated: the signal is set before transaction 0, and transactions 0, 1 and
  2 are all presented to the engine.
\<close>

theorem cancellation_counterexample:
  "set_from 0 0 \<and>
   presented (trace_of (Prefetch demo demo_config (demo_block 4 [10, 20, 30]) [] ()
     (Some (set_from 0)))) = [10, 20, 30]"
  by (simp add: demo_simps)

subsection \<open>Root warming\<close>




subsection \<open>The DAO hard fork\<close>

text \<open>
  Claim C3 (DAO hard fork). \<open>ApplyDAOHardFork\<close> is called exactly when DAO fork support
  is on and the configured DAO fork block is the block's number; it is then the first
  call of the run and is not repeated. The loop over the transactions runs on the state
  database so mutated, once, in that case and on the given one otherwise: the exit path
  and the objects that \<open>Prefetch\<close> leaves are those of the loop started on it, with the
  EVM built on it. In particular, on a block without transactions the state database the
  run leaves is the mutated one in that case and the given one otherwise.
\<close>

theorem Prefetch_DAO_fork_once:
  "(DAOForkSupport config \<and> DAOForkBlock config = Some (Number (header block)) \<longrightarrow>
      (\<exists>rest. trace_of (Prefetch C config block db cfg interrupt) = Ev_ApplyDAOHardFork # rest \<and>
         Ev_ApplyDAOHardFork \<notin> set rest)) \<and>
   (\<not> (DAOForkSupport config \<and> DAOForkBlock config = Some (Number (header block))) \<longrightarrow>
      Ev_ApplyDAOHardFork \<notin> set (trace_of (Prefetch C config block db cfg interrupt))) \<and>
   (transactions block = [] \<longrightarrow>
      statedb (machine_of (Prefetch C config block db cfg interrupt)) =
        (if DAOForkSupport config \<and> DAOForkBlock config = Some (Number (header block))
         then ApplyDAOHardFork C db else db)) \<and>
   exit_of (Prefetch C config block db cfg interrupt) =
     fst (prefetch_loop C config (header block) (HeaderHash C (header block))
            (MakeSigner C config (Number (header block)) (Time (header block)))
            0 (transactions block)
            \<lparr>statedb =
               (if DAOForkSupport config \<and> DAOForkBlock config = Some (Number (header block))
                then ApplyDAOHardFork C db else db),
             vmenv = NewEVM C (header block)
               (if DAOForkSupport config \<and> DAOForkBlock config = Some (Number (header block))
                then ApplyDAOHardFork C db else db) config cfg,
             gp = GasLimit (header block), usedGas = 0\<rparr>) \<and>
   machine_of (Prefetch C config block db cfg interrupt) =
     snd (snd (prefetch_loop C config (header block) (HeaderHash C (header block))
            (MakeSigner C config (Number (header block)) (Time (header block)))
            0 (transactions block)
            \<lparr>statedb =
               (if DAOForkSupport config \<and> DAOForkBlock config = Some (Number (header block))
                then ApplyDAOHardFork C db else db),
             vmenv = NewEVM C (header block)
               (if DAOForkSupport config \<and> DAOForkBlock config = Some (Number (header block))
                then ApplyDAOHardFork C db else db) config cfg,
             gp = GasLimit (header block), usedGas = 0\<rparr>))"
  using Prefetch_DAO_trace [of config block C db cfg interrupt]
    Prefetch_loop_machine [of C config block db cfg interrupt]
  by blast

text \<open>
  Block 5 is the DAO fork block of the configuration, block 4 is not. On block 5 the mark
  of the mutation is on the state database before the context of the first transaction.
\<close>

theorem Prefetch_DAO_fork_once_witness:
  "DAOForkSupport demo_config \<and>
   DAOForkBlock demo_config = Some (Number (header (demo_block 5 [10]))) \<and>
   trace_of (Prefetch demo_marking demo_config (demo_block 5 [10]) [] () None) =
     [Ev_ApplyDAOHardFork, Ev_InitTxFile 5, Ev_SetTxContext 10 0, Ev_WriteHash 5 10,
      Ev_applyTransaction 10 100 90 None, Ev_WriteHash 5 10, Ev_ReNameTxFile 5] \<and>
   statedb (machine_of (Prefetch demo_marking demo_config (demo_block 5 [10]) [] () None)) =
     [(0, 0), (10, 0), (10, 99)] \<and>
   DAOForkBlock demo_config \<noteq> Some (Number (header (demo_block 4 [10]))) \<and>
   Ev_ApplyDAOHardFork \<notin>
     set (trace_of (Prefetch demo_marking demo_config (demo_block 4 [10]) [] () None)) \<and>
   statedb (machine_of (Prefetch demo_marking demo_config (demo_block 4 [10]) [] () None)) =
     [(10, 0), (10, 99)] \<and>
   transactions (demo_block 5 []) = [] \<and>
   statedb (machine_of (Prefetch demo_marking demo_config (demo_block 5 []) [] () None)) = [(0, 0)]"
  using Prefetch_DAO_fork_once [of demo_config "demo_block 5 [10]" demo_marking "[]" "()" None]
    Prefetch_DAO_fork_once [of demo_config "demo_block 4 [10]" demo_marking "[]" "()" None]
    Prefetch_DAO_fork_once [of demo_config "demo_block 5 []" demo_marking "[]" "()" None]
  by (simp add: demo_simps)

subsection \<open>Failed sender resolution\<close>

text \<open>
  Claim C4 (sender resolution fails). If \<open>TransactionToMessage\<close> fails on the
  transaction at position \<open>k\<close>, the engine is called on at most the \<open>k\<close>
  transactions before it, in block order, with contexts bound for exactly those; the run
  does not complete, its last call is \<open>DelTxFile\<close>, and no state root is computed.
  When the \<open>k\<close> transactions before it were all executed without error, the run leaves
  through the return for the failed sender resolution.
\<close>

theorem Prefetch_sender_failure:
  assumes "k < length (transactions block)"
    and "isl (TransactionToMessage C (transactions block ! k)
               (MakeSigner C config (Number (header block)) (Time (header block)))
               (BaseFee (header block)))"
  shows "length (presented (trace_of (Prefetch C config block db cfg interrupt))) \<le> k \<and>
    presented (trace_of (Prefetch C config block db cfg interrupt)) =
      take (length (presented (trace_of (Prefetch C config block db cfg interrupt))))
        (transactions block) \<and>
    bound_contexts (trace_of (Prefetch C config block db cfg interrupt)) =
      zip (map (Hash C) (presented (trace_of (Prefetch C config block db cfg interrupt))))
        [0 ..< length (presented (trace_of (Prefetch C config block db cfg interrupt)))] \<and>
    exit_of (Prefetch C config block db cfg interrupt) \<noteq> Completed \<and>
    last (trace_of (Prefetch C config block db cfg interrupt)) = Ev_DelTxFile (Number (header block)) \<and>
    root_computations (trace_of (Prefetch C config block db cfg interrupt)) = 0 \<and>
    (engine_calls (trace_of (Prefetch C config block db cfg interrupt)) =
       map (\<lambda>tx. (tx, None)) (take k (transactions block)) \<longrightarrow>
     exit_of (Prefetch C config block db cfg interrupt) = SenderResolutionFailed)"
proof (rule Prefetch_run [where block = block and config = config and C = C and db = db
      and cfg = cfg and intr = interrupt], goal_cases)
  case (1 m0)
  define run where "run = prefetch_loop C config (header block) (HeaderHash C (header block))
      (MakeSigner C config (Number (header block)) (Time (header block))) 0 (transactions block) m0"
  have x: "exit_of (Prefetch C config block db cfg interrupt) = fst run"
    using 1(3) by (simp add: run_def)
  have f: "length (engine_calls (fst (snd run))) \<le> k \<and> fst run \<noteq> Completed"
    unfolding run_def by (rule loop_sender_failure [OF assms])
  have t: "trace_of (Prefetch C config block db cfg interrupt) =
      (if DAOForkSupport config \<and> DAOForkBlock config = Some (Number (header block))
       then [Ev_ApplyDAOHardFork] else []) @
      (if transactions block = [] then [] else [Ev_InitTxFile (Number (header block))]) @
      fst (snd run)"
    using 1(4) f by (simp add: x run_def)
  have c: "engine_calls (trace_of (Prefetch C config block db cfg interrupt)) =
      engine_calls (fst (snd run))"
    and b: "bound_contexts (trace_of (Prefetch C config block db cfg interrupt)) =
      bound_contexts (fst (snd run))"
    and r: "filter is_root (trace_of (Prefetch C config block db cfg interrupt)) =
      filter is_root (fst (snd run))"
    unfolding t by (simp_all add: engine_calls_append bound_contexts_append)
  have l: "fst (snd run) \<noteq> [] \<and> last (fst (snd run)) = Ev_DelTxFile (Number (header block))"
    unfolding run_def by (rule loop_aborted_last) (use f in \<open>simp add: run_def\<close>)
  have pre: "length (presented (fst (snd run))) \<le> length (transactions block) \<and>
      presented (fst (snd run)) = take (length (presented (fst (snd run)))) (transactions block)"
    unfolding run_def by (rule loop_presented_prefix)
  have bc: "bound_contexts (fst (snd run)) =
      zip (map (Hash C) (presented (fst (snd run)))) [0 ..< 0 + length (presented (fst (snd run)))]"
    unfolding run_def by (rule loop_bound_contexts)
  have reach: "engine_calls (fst (snd run)) = map (\<lambda>tx. (tx, None)) (take k (transactions block))
      \<Longrightarrow> fst run = SenderResolutionFailed"
    unfolding run_def by (rule loop_reaches_bad_sender [OF assms])
  have p: "presented (trace_of (Prefetch C config block db cfg interrupt)) = presented (fst (snd run))"
    by (simp add: presented_def c)
  have "last (trace_of (Prefetch C config block db cfg interrupt)) = Ev_DelTxFile (Number (header block))"
    unfolding t using l by simp
  moreover have "root_computations (trace_of (Prefetch C config block db cfg interrupt)) = 0"
    by (simp add: root_computations_def r run_def loop_no_root)
  moreover have "length (presented (trace_of (Prefetch C config block db cfg interrupt))) \<le> k"
    using f by (simp add: presented_def c)
  ultimately show ?case
    using pre bc reach f by (simp add: p b x c)
qed

text \<open>The second of three transactions has no recoverable sender.\<close>

theorem Prefetch_sender_failure_witness:
  "1 < length (transactions (demo_block 4 [10, 0, 30])) \<and>
   isl (TransactionToMessage demo (transactions (demo_block 4 [10, 0, 30]) ! 1)
         (MakeSigner demo demo_config (Number (header (demo_block 4 [10, 0, 30])))
            (Time (header (demo_block 4 [10, 0, 30]))))
         (BaseFee (header (demo_block 4 [10, 0, 30])))) \<and>
   presented (trace_of (Prefetch demo demo_config (demo_block 4 [10, 0, 30]) [] () None)) = [10] \<and>
   bound_contexts (trace_of (Prefetch demo demo_config (demo_block 4 [10, 0, 30]) [] () None)) =
     [(10, 0)] \<and>
   exit_of (Prefetch demo demo_config (demo_block 4 [10, 0, 30]) [] () None) =
     SenderResolutionFailed"
proof -
  have h1: "1 < length (transactions (demo_block 4 [10, 0, 30]))"
    by (simp add: demo_block_def)
  have h2: "isl (TransactionToMessage demo (transactions (demo_block 4 [10, 0, 30]) ! 1)
         (MakeSigner demo demo_config (Number (header (demo_block 4 [10, 0, 30])))
            (Time (header (demo_block 4 [10, 0, 30]))))
         (BaseFee (header (demo_block 4 [10, 0, 30]))))"
    by (simp add: demo_block_def demo_def)
  show ?thesis
    using h1 h2 Prefetch_sender_failure [OF h1 h2, of "[]" "()" None]
    by (simp add: demo_simps)
qed

subsection \<open>Failed execution\<close>

text \<open>
  Claim C5 (execution fails). If the \<open>k\<close>-th call of the engine returns an error, that
  call is for the transaction at position \<open>k\<close> and is the last one; the run leaves
  through the return for the failed execution, its last call is \<open>DelTxFile\<close>, and
  \<open>ReNameTxFile\<close> is not called.
\<close>

theorem Prefetch_engine_error:
  assumes "k < length (engine_calls (trace_of (Prefetch C config block db cfg interrupt)))"
    and "snd (engine_calls (trace_of (Prefetch C config block db cfg interrupt)) ! k) \<noteq> None"
  shows "fst (engine_calls (trace_of (Prefetch C config block db cfg interrupt)) ! k) =
      transactions block ! k \<and>
    length (engine_calls (trace_of (Prefetch C config block db cfg interrupt))) = Suc k \<and>
    exit_of (Prefetch C config block db cfg interrupt) = ExecutionFailed \<and>
    last (trace_of (Prefetch C config block db cfg interrupt)) = Ev_DelTxFile (Number (header block)) \<and>
    Ev_ReNameTxFile (Number (header block)) \<notin> set (trace_of (Prefetch C config block db cfg interrupt))"
proof (rule Prefetch_run [where block = block and config = config and C = C and db = db
      and cfg = cfg and intr = interrupt], goal_cases)
  case (1 m0)
  define run where "run = prefetch_loop C config (header block) (HeaderHash C (header block))
      (MakeSigner C config (Number (header block)) (Time (header block))) 0 (transactions block) m0"
  have x: "exit_of (Prefetch C config block db cfg interrupt) = fst run"
    using 1(3) by (simp add: run_def)
  have c: "engine_calls (trace_of (Prefetch C config block db cfg interrupt)) =
      engine_calls (fst (snd run))"
    unfolding 1(4) run_def [symmetric] by (simp add: engine_calls_append)
  have e: "length (engine_calls (fst (snd run))) = Suc k \<and> fst run = ExecutionFailed \<and>
      last (fst (snd run)) = Ev_DelTxFile (Number (header block))"
    unfolding run_def by (rule loop_engine_error) (use assms c in \<open>simp_all add: run_def\<close>)
  have t: "trace_of (Prefetch C config block db cfg interrupt) =
      (if DAOForkSupport config \<and> DAOForkBlock config = Some (Number (header block))
       then [Ev_ApplyDAOHardFork] else []) @
      (if transactions block = [] then [] else [Ev_InitTxFile (Number (header block))]) @
      fst (snd run)"
    using 1(4) e by (simp add: x run_def)
  have l: "fst (snd run) \<noteq> []"
    using loop_aborted_last [of C config "header block" "HeaderHash C (header block)"
        "MakeSigner C config (Number (header block)) (Time (header block))" 0 "transactions block" m0] e
    by (simp add: run_def)
  have n: "Ev_ReNameTxFile (Number (header block)) \<notin> set (fst (snd run))"
    unfolding run_def by (rule loop_no_rename)
  have pre: "length (presented (fst (snd run))) \<le> length (transactions block) \<and>
      presented (fst (snd run)) = take (length (presented (fst (snd run)))) (transactions block)"
    unfolding run_def by (rule loop_presented_prefix)
  have "presented (fst (snd run)) ! k = transactions block ! k"
    using pre e by (metis length_map lessI nth_take presented_def)
  then have "fst (engine_calls (fst (snd run)) ! k) = transactions block ! k"
    using e by (simp add: presented_def)
  moreover have "last (trace_of (Prefetch C config block db cfg interrupt)) =
      Ev_DelTxFile (Number (header block))"
    unfolding t using l e by simp
  moreover have "Ev_ReNameTxFile (Number (header block)) \<notin>
      set (trace_of (Prefetch C config block db cfg interrupt))"
    unfolding t using n by simp
  ultimately show ?case
    using e by (simp add: c x)
qed

text \<open>The second of three transactions needs more gas than the pool holds.\<close>

theorem Prefetch_engine_error_witness:
  "1 < length (engine_calls (trace_of (Prefetch demo demo_config (demo_block 4 [10, 200, 30]) [] () None))) \<and>
   snd (engine_calls (trace_of (Prefetch demo demo_config (demo_block 4 [10, 200, 30]) [] () None)) ! 1)
     \<noteq> None \<and>
   fst (engine_calls (trace_of (Prefetch demo demo_config (demo_block 4 [10, 200, 30]) [] () None)) ! 1)
     = 200 \<and>
   length (engine_calls (trace_of (Prefetch demo demo_config (demo_block 4 [10, 200, 30]) [] () None)))
     = 2 \<and>
   exit_of (Prefetch demo demo_config (demo_block 4 [10, 200, 30]) [] () None) = ExecutionFailed \<and>
   last (trace_of (Prefetch demo demo_config (demo_block 4 [10, 200, 30]) [] () None)) = Ev_DelTxFile 4"
proof -
  have h1: "1 < length (engine_calls (trace_of
      (Prefetch demo demo_config (demo_block 4 [10, 200, 30]) [] () None)))"
    by (simp add: demo_simps)
  have h2: "snd (engine_calls (trace_of
      (Prefetch demo demo_config (demo_block 4 [10, 200, 30]) [] () None)) ! 1) \<noteq> None"
    by (simp add: demo_simps)
  show ?thesis
    using h1 h2 Prefetch_engine_error [OF h1 h2]
    by (simp add: demo_simps)
qed

subsection \<open>Order of the bound contexts\<close>



subsection \<open>Pairing of the hooks\<close>

text \<open>
  Claim C7 (hook pairing). Whatever the cancellation signal and whichever way the run
  ends, the hooks that open and close a run are: none for a block without transactions;
  otherwise \<open>InitTxFile\<close> followed by exactly one closing hook for the same block
  number, \<open>ReNameTxFile\<close> when the run completes and \<open>DelTxFile\<close> when it does
  not.
\<close>

theorem Prefetch_hooks_paired:
  "run_hooks (trace_of (Prefetch C config block db cfg interrupt)) =
     (if transactions block = [] then []
      else [Ev_InitTxFile (Number (header block)),
            if exit_of (Prefetch C config block db cfg interrupt) = Completed
            then Ev_ReNameTxFile (Number (header block))
            else Ev_DelTxFile (Number (header block))])"
proof (rule Prefetch_run [where block = block and config = config and C = C and db = db
      and cfg = cfg and intr = interrupt], goal_cases)
  case (1 m0)
  define run where "run = prefetch_loop C config (header block) (HeaderHash C (header block))
      (MakeSigner C config (Number (header block)) (Time (header block))) 0 (transactions block) m0"
  have x: "exit_of (Prefetch C config block db cfg interrupt) = fst run"
    using 1(3) by (simp add: run_def)
  have h: "filter is_run_hook (fst (snd run)) =
      (if fst run = Completed then [] else [Ev_DelTxFile (Number (header block))])"
    using loop_run_hooks [of C config "header block" "HeaderHash C (header block)"
        "MakeSigner C config (Number (header block)) (Time (header block))" 0 "transactions block" m0]
    by (simp add: run_hooks_def run_def)
  have t: "trace_of (Prefetch C config block db cfg interrupt) =
      (if DAOForkSupport config \<and> DAOForkBlock config = Some (Number (header block))
       then [Ev_ApplyDAOHardFork] else []) @
      (if transactions block = [] then [] else [Ev_InitTxFile (Number (header block))]) @
      fst (snd run) @
      (if fst run = Completed \<and> transactions block \<noteq> []
       then [Ev_ReNameTxFile (Number (header block))] else [])"
    using 1(4) by (simp add: x run_def)
  have e: "transactions block = [] \<Longrightarrow> fst run = Completed"
    by (simp add: run_def)
  show ?case
    unfolding t x using e by (auto simp: run_hooks_def h)
qed

text \<open>The four exit situations: failed execution, failed sender, completion, empty block.\<close>

theorem Prefetch_hooks_paired_witness:
  "run_hooks (trace_of (Prefetch demo demo_config (demo_block 4 [10, 200, 30]) [] () None)) =
     [Ev_InitTxFile 4, Ev_DelTxFile 4] \<and>
   run_hooks (trace_of (Prefetch demo demo_config (demo_block 4 [10, 0, 30]) [] () None)) =
     [Ev_InitTxFile 4, Ev_DelTxFile 4] \<and>
   run_hooks (trace_of (Prefetch demo demo_config (demo_block 4 [10, 20, 30]) [] () None)) =
     [Ev_InitTxFile 4, Ev_ReNameTxFile 4] \<and>
   run_hooks (trace_of (Prefetch demo demo_config (demo_block 4 []) [] () None)) = []"
  using Prefetch_hooks_paired [of demo demo_config "demo_block 4 [10, 200, 30]" "[]" "()" None]
    Prefetch_hooks_paired [of demo demo_config "demo_block 4 [10, 0, 30]" "[]" "()" None]
    Prefetch_hooks_paired [of demo demo_config "demo_block 4 [10, 20, 30]" "[]" "()" None]
    Prefetch_hooks_paired [of demo demo_config "demo_block 4 []" "[]" "()" None]
  by (simp add: demo_simps)

subsection \<open>The gas pool\<close>



subsection \<open>Independence of the cancellation signal\<close>

text \<open>
  Claim C9 (the signal is never read). The result of \<open>Prefetch\<close> (exit path, calls made
  and objects left) is the same for any two values of the cancellation signal.
\<close>

theorem Prefetch_interrupt_never_read:
  "Prefetch C config block db cfg interrupt1 = Prefetch C config block db cfg interrupt2"
  by (simp add: Prefetch_def)

text \<open>A signal set from boundary 1 on, against no signal.\<close>

theorem Prefetch_interrupt_never_read_witness:
  "Prefetch demo demo_config (demo_block 4 [10, 20, 30]) [] () (Some (set_from 1)) =
     Prefetch demo demo_config (demo_block 4 [10, 20, 30]) [] () None"
  using Prefetch_interrupt_never_read [of demo demo_config "demo_block 4 [10, 20, 30]" "[]" "()"
      "Some (set_from 1)" None]
  by simp

subsection \<open>WriteHash around each execution\<close>

text \<open>
  Claim C10 (WriteHash around execution). Wherever the engine is called in a run, the call
  just before it is \<open>WriteHash\<close> for the block number and the transaction's hash; when
  the engine returns no error the call just after it is that same \<open>WriteHash\<close>, and
  when it returns an error the only call after it is \<open>DelTxFile\<close>. In all,
  \<open>WriteHash\<close> is called twice for each successful execution and once for each failed
  one.
\<close>

theorem Prefetch_WriteHash_around_execution:
  assumes "trace_of (Prefetch C config block db cfg interrupt) =
      before @ Ev_applyTransaction tx g g' r # after"
  shows "(\<exists>bs. before = bs @ [Ev_WriteHash (Number (header block)) (Hash C tx)]) \<and>
    (r = None \<longrightarrow> (\<exists>as. after = Ev_WriteHash (Number (header block)) (Hash C tx) # as)) \<and>
    (r \<noteq> None \<longrightarrow> after = [Ev_DelTxFile (Number (header block))]) \<and>
    length (filter is_WriteHash (trace_of (Prefetch C config block db cfg interrupt))) =
      2 * length (filter (\<lambda>c. snd c = None)
            (engine_calls (trace_of (Prefetch C config block db cfg interrupt)))) +
      length (filter (\<lambda>c. snd c \<noteq> None)
            (engine_calls (trace_of (Prefetch C config block db cfg interrupt))))"
proof (rule Prefetch_run [where block = block and config = config and C = C and db = db
      and cfg = cfg and intr = interrupt], goal_cases)
  case (1 m0)
  define run where "run = prefetch_loop C config (header block) (HeaderHash C (header block))
      (MakeSigner C config (Number (header block)) (Time (header block))) 0 (transactions block) m0"
  define pre where "pre =
      (if DAOForkSupport config \<and> DAOForkBlock config = Some (Number (header block))
       then [Ev_ApplyDAOHardFork] else []) @
      (if transactions block = [] then [] else [Ev_InitTxFile (Number (header block)) :: 'a event])"
  define post where "post =
      (if fst run = Completed \<and> transactions block \<noteq> []
       then [Ev_ReNameTxFile (Number (header block)) :: 'a event] else [])"
  have t: "trace_of (Prefetch C config block db cfg interrupt) = pre @ fst (snd run) @ post"
    using 1(3) 1(4) by (simp add: pre_def post_def run_def)
  have "Ev_applyTransaction tx g g' r \<notin> set pre" and "Ev_applyTransaction tx g g' r \<notin> set post"
    by (simp_all add: pre_def post_def)
  with assms t obtain b a where b: "before = pre @ b" and a: "after = a @ post"
    and m: "fst (snd run) = b @ Ev_applyTransaction tx g g' r # a"
    using split_middle [of pre "fst (snd run)" post before "Ev_applyTransaction tx g g' r" after]
    by auto
  have adj: "(\<exists>bs. b = bs @ [Ev_WriteHash (Number (header block)) (Hash C tx)]) \<and>
      (r = None \<longrightarrow> (\<exists>as. a = Ev_WriteHash (Number (header block)) (Hash C tx) # as)) \<and>
      (r \<noteq> None \<longrightarrow> a = [Ev_DelTxFile (Number (header block))] \<and> fst run \<noteq> Completed)"
    using loop_write_hash_adjacent_aux [of C config "header block" "HeaderHash C (header block)"
        "MakeSigner C config (Number (header block)) (Time (header block))" 0 "transactions block"
        m0 tx g g' r] m
    unfolding run_def by blast
  have cnt: "length (filter is_WriteHash (fst (snd run))) =
      2 * length (filter (\<lambda>c. snd c = None) (engine_calls (fst (snd run)))) +
      length (filter (\<lambda>c. snd c \<noteq> None) (engine_calls (fst (snd run))))"
    unfolding run_def by (rule loop_write_hash_count)
  have f: "filter is_WriteHash (trace_of (Prefetch C config block db cfg interrupt)) =
      filter is_WriteHash (fst (snd run))"
    and c: "engine_calls (trace_of (Prefetch C config block db cfg interrupt)) =
      engine_calls (fst (snd run))"
    unfolding t by (simp_all add: pre_def post_def engine_calls_append)
  have "\<exists>bs. before = bs @ [Ev_WriteHash (Number (header block)) (Hash C tx)]"
    using adj b by auto
  moreover have "r = None \<longrightarrow> (\<exists>as. after = Ev_WriteHash (Number (header block)) (Hash C tx) # as)"
    using adj a by auto
  moreover have "r \<noteq> None \<longrightarrow> after = [Ev_DelTxFile (Number (header block))]"
    using adj a by (auto simp: post_def)
  ultimately show ?case
    using cnt by (simp add: f c)
qed

text \<open>One transaction that executes and one that fails.\<close>

theorem Prefetch_WriteHash_around_execution_witness:
  "trace_of (Prefetch demo demo_config (demo_block 4 [10, 200]) [] () None) =
     [Ev_InitTxFile 4, Ev_SetTxContext 10 0, Ev_WriteHash 4 10] @
     Ev_applyTransaction 10 100 90 None #
     [Ev_WriteHash 4 10, Ev_SetTxContext 200 1, Ev_WriteHash 4 200,
      Ev_applyTransaction 200 90 90 (Some (Error ''gas limit reached'')), Ev_DelTxFile 4] \<and>
   length (filter is_WriteHash
     (trace_of (Prefetch demo demo_config (demo_block 4 [10, 200]) [] () None))) = 3"
proof -
  have h: "trace_of (Prefetch demo demo_config (demo_block 4 [10, 200]) [] () None) =
     [Ev_InitTxFile 4, Ev_SetTxContext 10 0, Ev_WriteHash 4 10] @
     Ev_applyTransaction 10 100 90 None #
     [Ev_WriteHash 4 10, Ev_SetTxContext 200 1, Ev_WriteHash 4 200,
      Ev_applyTransaction 200 90 90 (Some (Error ''gas limit reached'')), Ev_DelTxFile 4]"
    by (simp add: demo_simps)
  show ?thesis
    using h Prefetch_WriteHash_around_execution [OF h]
    by (simp add: demo_simps)
qed

end
